theory Spec2Isabelle
  imports Complex_Main "HOL-Library.Word"
begin

section \<open>Data model of the sketch\<close>

text \<open>
  The sketch targets the AVR boards (the serial wait is "needed for Leonardo only"):
  \<^verbatim>\<open>unsigned int\<close> is 16 bits wide and \<^verbatim>\<open>unsigned long\<close> is 32 bits wide, and both
  wrap around.
\<close>

type_synonym uint = "16 word"
type_synonym ulong = "32 word"

definition MAX_ADC :: uint where
  "MAX_ADC = 1023"

definition MIN_ADC :: uint where
  "MIN_ADC = 0"

definition DEAD_BAND_FACTOR :: real where
  "DEAD_BAND_FACTOR = 0.25"

definition FIXED_DEAD_BAND :: uint where
  "FIXED_DEAD_BAND = 40"

text \<open>
  The global variables. \<^verbatim>\<open>threshold\<close> is an array of two cells that the source indexes
  with \<^verbatim>\<open>false\<close> and \<^verbatim>\<open>true\<close>.
\<close>

record sketch =
  threshold :: "bool \<Rightarrow> uint"
  adcState :: bool
  startTime :: ulong
  revolutionStart :: ulong
  revolutions :: uint

text \<open>
  The globals as the initialisers leave them at reset: \<^verbatim>\<open>adcState = HIGH\<close>,
  \<^verbatim>\<open>revolutions = 0\<close>, everything else zero-initialised.
\<close>

definition reset :: sketch where
  "reset = \<lparr>threshold = (\<lambda>_. 0), adcState = True, startTime = 0,
            revolutionStart = 0, revolutions = 0\<rparr>"

text \<open>
  The hardware is a script of readings. One reading holds what the three input calls
  return at one polling instant: \<^verbatim>\<open>digitalRead(CALIB_PIN)\<close>, \<^verbatim>\<open>analogRead(SENSE_PIN)\<close>
  and \<^verbatim>\<open>millis()\<close>. Every loop of the sketch polls once per iteration, so every
  iteration consumes one reading. A script that ends while a loop is still polling
  gives \<open>None\<close>: the loop has not returned.
\<close>

record reading =
  pin :: bool
  adc :: uint
  now :: ulong

text \<open>
  The speeds are floating-point values. They are modelled by their exact real value,
  with the two results that a division by zero produces kept apart: a positive value
  divided by zero is infinite and zero divided by zero is not a number. The rounding of
  the 32-bit format is not modelled. All operands of the sketch are non-negative.
\<close>

datatype fvalue = Fin real | PosInf | NotANumber

definition fdiv :: "real \<Rightarrow> real \<Rightarrow> fvalue" where
  "fdiv a b = (if b = 0 then (if a = 0 then NotANumber else PosInf) else Fin (a / b))"

text \<open>
  Conversion of a floating-point value to \<^verbatim>\<open>unsigned int\<close> drops the fraction.
\<close>

definition float_to_uint :: "real \<Rightarrow> uint" where
  "float_to_uint x = word_of_int (if 0 \<le> x then \<lfloor>x\<rfloor> else \<lceil>x\<rceil>)"

text \<open>The \<^verbatim>\<open>min\<close> of the Arduino core: \<^verbatim>\<open>((a)<(b)?(a):(b))\<close>.\<close>

definition min_macro :: "real \<Rightarrow> real \<Rightarrow> real" where
  "min_macro a b = (if a < b then a else b)"

text \<open>What the sketch prints: a range line of the sampler, or a revolution line.\<close>

datatype report =
  RangeReport uint uint ulong
  | RevolutionReport uint ulong fvalue fvalue

section \<open>The operations\<close>

subsection \<open>getAdcBoolean\<close>

text \<open>
  The detector reads one sample and returns the boolean state. It reads the globals and
  assigns none of them: the state it returns with is the state it was called in.
\<close>

definition getAdcBoolean :: "sketch \<Rightarrow> uint \<Rightarrow> bool \<times> sketch" where
  "getAdcBoolean s a =
     (if adcState s then
        (if a \<le> threshold s False then (False, s) else (adcState s, s))
      else
        (if a \<ge> threshold s True then (True, s) else (adcState s, s)))"

subsection \<open>getActiveSenseRange\<close>

text \<open>
  One iteration of the sampling loop, on the globals and the local \<^verbatim>\<open>newLimit\<close>.
  The local is set in the loop and never cleared in it.
\<close>

definition senseBody :: "sketch \<times> bool \<Rightarrow> reading \<Rightarrow> (sketch \<times> bool) \<times> report list" where
  "senseBody st r =
     (let s = fst st; newLimit = snd st; v = adc r;
          s1 = (if v < threshold s False
                then s\<lparr>threshold := (threshold s)(False := v)\<rparr> else s);
          n1 = (if v < threshold s False then True else newLimit);
          s2 = (if v > threshold s1 True
                then s1\<lparr>threshold := (threshold s1)(True := v)\<rparr> else s1);
          n2 = (if v > threshold s1 True then True else n1)
      in ((s2, n2),
          (if n2 then [RangeReport (threshold s2 False) (threshold s2 True) (now r)]
           else [])))"

fun senseLoop :: "sketch \<times> bool \<Rightarrow> reading list \<Rightarrow> (sketch \<times> report list \<times> reading list) option" where
  "senseLoop st [] = None"
| "senseLoop st (r # rs) =
     (if pin r then
        (case senseLoop (fst (senseBody st r)) rs of
           None \<Rightarrow> None
         | Some (s', out, rest) \<Rightarrow> Some (s', snd (senseBody st r) @ out, rest))
      else Some (fst st, [], rs))"

definition getActiveSenseRange :: "sketch \<Rightarrow> reading list \<Rightarrow> (sketch \<times> report list \<times> reading list) option" where
  "getActiveSenseRange s rs =
     (let s1 = s\<lparr>threshold := (threshold s)(False := MAX_ADC)\<rparr>;
          s2 = s1\<lparr>threshold := (threshold s1)(True := MIN_ADC)\<rparr>
      in senseLoop (s2, False) rs)"

subsection \<open>calibrateBooleanSense\<close>

text \<open>
  The three locals, as functions of the two cells of the array, and the procedure, which
  reads the observed range from the array and overwrites it with the thresholds.
\<close>

definition median :: "sketch \<Rightarrow> uint" where
  "median s = (threshold s False + threshold s True) div 2"

definition extent :: "sketch \<Rightarrow> uint" where
  "extent s = threshold s True - threshold s False"

definition halfBand :: "sketch \<Rightarrow> uint" where
  "halfBand s =
     float_to_uint (min_macro (real (unat (extent s)) * DEAD_BAND_FACTOR)
                              (real (unat FIXED_DEAD_BAND)))"

definition calibrateBooleanSense :: "sketch \<Rightarrow> sketch" where
  "calibrateBooleanSense s =
     (let m = median s; h = halfBand s;
          s1 = s\<lparr>threshold := (threshold s)(False := m - h)\<rparr>
      in s1\<lparr>threshold := (threshold s1)(True := m + h)\<rparr>)"

subsection \<open>synchronizeToRotation\<close>

text \<open>
  The two polling loops. Each returns the state, the reading that ended it and the rest
  of the script.
\<close>

fun waitLow :: "sketch \<Rightarrow> reading list \<Rightarrow> (sketch \<times> reading \<times> reading list) option" where
  "waitLow s [] = None"
| "waitLow s (r # rs) =
     (if fst (getAdcBoolean s (adc r)) then waitLow (snd (getAdcBoolean s (adc r))) rs
      else Some (snd (getAdcBoolean s (adc r)), r, rs))"

fun waitHigh :: "sketch \<Rightarrow> reading list \<Rightarrow> (sketch \<times> reading \<times> reading list) option" where
  "waitHigh s [] = None"
| "waitHigh s (r # rs) =
     (if \<not> fst (getAdcBoolean s (adc r)) then waitHigh (snd (getAdcBoolean s (adc r))) rs
      else Some (snd (getAdcBoolean s (adc r)), r, rs))"

text \<open>
  \<^verbatim>\<open>millis()\<close> is called when the second loop has ended: it is the time of the reading
  that ended it.
\<close>

definition synchronizeToRotation :: "sketch \<Rightarrow> reading list \<Rightarrow> (ulong \<times> sketch \<times> reading list) option" where
  "synchronizeToRotation s rs =
     (case waitLow s rs of
        None \<Rightarrow> None
      | Some (s1, r1, rs1) \<Rightarrow>
          (case waitHigh s1 rs1 of
             None \<Rightarrow> None
           | Some (s2, r2, rs2) \<Rightarrow> Some (now r2, s2, rs2)))"

subsection \<open>loop\<close>

text \<open>One call of \<^verbatim>\<open>loop()\<close>: the new globals and the line printed, if any.\<close>

definition loop :: "sketch \<Rightarrow> reading \<Rightarrow> sketch \<times> report list" where
  "loop s r =
     (let senseState = fst (getAdcBoolean s (adc r));
          s1 = snd (getAdcBoolean s (adc r))
      in if adcState s1 \<and> \<not> senseState then
           (let revolutionEnd = now r;
                s2 = s1\<lparr>revolutions := revolutions s1 + 1\<rparr>;
                revolutionInterval = revolutionEnd - revolutionStart s2;
                totalInterval = revolutionEnd - startTime s2;
                revSpeed = fdiv 1000 (real (unat revolutionInterval));
                averageSpeed = fdiv (real (unat (revolutions s2)) * 1000)
                                    (real (unat totalInterval));
                s3 = s2\<lparr>revolutionStart := revolutionEnd\<rparr>
            in (s3\<lparr>adcState := senseState\<rparr>,
                [RevolutionReport (revolutions s2) revolutionInterval revSpeed averageSpeed]))
         else (s1\<lparr>adcState := senseState\<rparr>, []))"

text \<open>The runtime calls \<^verbatim>\<open>loop()\<close> again and again: a script of readings gives a prefix of the run.\<close>

fun run_loop :: "sketch \<Rightarrow> reading list \<Rightarrow> sketch \<times> report list" where
  "run_loop s [] = (s, [])"
| "run_loop s (r # rs) =
     (let s' = fst (loop s r); out = snd (loop s r)
      in (fst (run_loop s' rs), out @ snd (run_loop s' rs)))"

subsection \<open>The start-up procedure\<close>

text \<open>The procedure \<^verbatim>\<open>setup()\<close> of the sketch, after the serial port is open.\<close>

definition setup_sketch :: "sketch \<Rightarrow> reading list \<Rightarrow> (sketch \<times> report list \<times> reading list) option" where
  "setup_sketch s rs =
     (case getActiveSenseRange s rs of
        None \<Rightarrow> None
      | Some (s1, out, rs1) \<Rightarrow>
          (case synchronizeToRotation (calibrateBooleanSense s1) rs1 of
             None \<Rightarrow> None
           | Some (t, s2, rs2) \<Rightarrow>
               Some (s2\<lparr>startTime := t, revolutionStart := t\<rparr>, out, rs2)))"

text \<open>Concrete states and readings for the examples.\<close>

definition with_range :: "uint \<Rightarrow> uint \<Rightarrow> sketch" where
  "with_range lo hi = reset\<lparr>threshold := (\<lambda>b. if b then hi else lo)\<rparr>"

definition sample :: "uint \<Rightarrow> ulong \<Rightarrow> reading" where
  "sample a t = \<lparr>pin = True, adc = a, now = t\<rparr>"

definition switch_closed :: "ulong \<Rightarrow> reading" where
  "switch_closed t = \<lparr>pin = False, adc = 0, now = t\<rparr>"

section \<open>Threshold derivation\<close>

subsection \<open>The arithmetic of calibrateBooleanSense on ranges inside the converter's domain\<close>

text \<open>
  An extent has at most 16 bits, so its product with 0.25 is exact in the 32-bit format:
  the real product below is the value the sketch computes.
\<close>

lemma unat_median:
  assumes "unat (threshold s False) \<le> 1023" "unat (threshold s True) \<le> 1023"
  shows "unat (median s) = (unat (threshold s False) + unat (threshold s True)) div 2"
proof -
  have "unat (threshold s False) + unat (threshold s True) < 2 ^ LENGTH(16)"
    using assms by simp
  then have "unat (threshold s False + threshold s True) = unat (threshold s False) + unat (threshold s True)"
    by (simp only: unat_add_lem [THEN iffD1])
  then show ?thesis
    by (simp add: median_def unat_div)
qed

lemma unat_extent:
  assumes "unat (threshold s False) \<le> unat (threshold s True)"
  shows "unat (extent s) = unat (threshold s True) - unat (threshold s False)"
  using assms by (simp add: extent_def unat_sub word_le_nat_alt)

lemma floor_quarter: "\<lfloor>real n * 0.25\<rfloor> = int (n div 4)"
proof -
  have "real n * 0.25 = real n / real 4" by simp
  then show ?thesis by (simp only: floor_divide_of_nat_eq) 
qed

lemma trunc_band:
  "float_to_uint (min_macro (real n * DEAD_BAND_FACTOR) (real (unat FIXED_DEAD_BAND)))
     = word_of_nat (min (n div 4) 40)"
proof (cases "n < 160")
  case True
  then have "real n * 0.25 < 40" by simp
  moreover have "(0::real) \<le> real n * 0.25" by simp
  ultimately have "float_to_uint (min_macro (real n * DEAD_BAND_FACTOR) (real (unat FIXED_DEAD_BAND)))
      = word_of_int \<lfloor>real n * 0.25\<rfloor>"
    by (simp add: min_macro_def float_to_uint_def DEAD_BAND_FACTOR_def FIXED_DEAD_BAND_def)
  also have "\<dots> = word_of_nat (n div 4)"
    by (simp only: floor_quarter) simp
  also have "n div 4 = min (n div 4) 40" using True by simp
  finally show ?thesis .
next
  case False
  then have "\<not> real n * 0.25 < 40" by simp
  then have "float_to_uint (min_macro (real n * DEAD_BAND_FACTOR) (real (unat FIXED_DEAD_BAND))) = 40"
    by (simp add: min_macro_def float_to_uint_def DEAD_BAND_FACTOR_def FIXED_DEAD_BAND_def)
  moreover have "min (n div 4) 40 = 40" using False by simp
  ultimately show ?thesis by simp
qed

lemma floor_band: "\<lfloor>min (real n * 0.25) 40\<rfloor> = int (min (n div 4) 40)"
proof (cases "n < 160")
  case True
  then have "min (real n * 0.25) 40 = real n * 0.25" by simp
  moreover have "min (n div 4) 40 = n div 4" using True by simp
  ultimately show ?thesis by (simp only: floor_quarter)
next
  case False
  then have "min (real n * 0.25) 40 = 40" by simp
  moreover have "min (n div 4) 40 = 40" using False by simp
  ultimately show ?thesis by simp
qed

lemma unat_halfBand: "unat (halfBand s) = min (unat (extent s) div 4) 40"
proof -
  have "word_of_nat (min (unat (extent s) div 4) 40) = halfBand s"
    unfolding halfBand_def by (rule trunc_band [symmetric])
  moreover have "min (unat (extent s) div 4) 40 < 2 ^ LENGTH(16)"
    by simp
  ultimately show ?thesis
    by (rule of_nat_inverse)
qed

lemma halfBand_le_median:
  assumes "unat (threshold s False) \<le> unat (threshold s True)" "unat (threshold s True) \<le> 1023"
  shows "unat (halfBand s) \<le> unat (median s)"
proof -
  have lo: "unat (threshold s False) \<le> 1023" using assms by simp
  show ?thesis
    using assms by (simp add: unat_halfBand unat_extent [OF assms(1)] unat_median [OF lo assms(2)])
qed

lemma median_plus_halfBand_le:
  assumes "unat (threshold s False) \<le> unat (threshold s True)" "unat (threshold s True) \<le> 1023"
  shows "unat (median s) + unat (halfBand s) \<le> unat (threshold s True)"
proof -
  have lo: "unat (threshold s False) \<le> 1023" using assms by simp
  show ?thesis
    using assms by (simp add: unat_halfBand unat_extent [OF assms(1)] unat_median [OF lo assms(2)])
qed

lemma unat_low_threshold:
  assumes "unat (threshold s False) \<le> unat (threshold s True)" "unat (threshold s True) \<le> 1023"
  shows "unat (median s - halfBand s) = unat (median s) - unat (halfBand s)"
  using halfBand_le_median [OF assms] by (simp add: unat_sub word_le_nat_alt)

lemma unat_high_threshold:
  assumes "unat (threshold s False) \<le> unat (threshold s True)" "unat (threshold s True) \<le> 1023"
  shows "unat (median s + halfBand s) = unat (median s) + unat (halfBand s)"
proof -
  have "unat (median s) + unat (halfBand s) < 2 ^ LENGTH(16)"
    using median_plus_halfBand_le [OF assms] assms(2) by simp
  then show ?thesis by (simp only: unat_add_lem [THEN iffD1])
qed

lemma calibrate_threshold:
  "threshold (calibrateBooleanSense s) False = median s - halfBand s"
  "threshold (calibrateBooleanSense s) True = median s + halfBand s"
  by (simp_all add: calibrateBooleanSense_def Let_def)

lemma calibrate_frame:
  "adcState (calibrateBooleanSense s) = adcState s"
  "startTime (calibrateBooleanSense s) = startTime s"
  "revolutionStart (calibrateBooleanSense s) = revolutionStart s"
  "revolutions (calibrateBooleanSense s) = revolutions s"
  by (simp_all add: calibrateBooleanSense_def Let_def)

lemmas calib_eval = median_def extent_def halfBand_def with_range_def reset_def
  DEAD_BAND_FACTOR_def FIXED_DEAD_BAND_def MAX_ADC_def MIN_ADC_def min_macro_def float_to_uint_def

subsection \<open>Median, extent, half band and thresholds\<close>

text \<open>
  Claim C2, as the sketch computes it. For an observed range with low < high, both
  inside [0, 1023]: the median is (low + high) / 2 rounded down, the extent is
  high - low, and the half band is min(extent * 0.25, 40) with its fraction dropped,
  since it is stored in an unsigned int. The thresholds are median - halfBand and
  median + halfBand; they enclose the median, strictly when the extent is at least 4,
  and both equal the median when the extent is below 4.
\<close>

theorem calibrateBooleanSense_thresholds:
  assumes "threshold s False < threshold s True" and "threshold s True \<le> MAX_ADC"
  shows "unat (median s) = (unat (threshold s False) + unat (threshold s True)) div 2
       \<and> unat (extent s) = unat (threshold s True) - unat (threshold s False)
       \<and> int (unat (halfBand s)) = \<lfloor>min (real (unat (extent s)) * 0.25) 40\<rfloor>
       \<and> threshold (calibrateBooleanSense s) False = median s - halfBand s
       \<and> threshold (calibrateBooleanSense s) True = median s + halfBand s
       \<and> threshold (calibrateBooleanSense s) False \<le> median s
       \<and> median s \<le> threshold (calibrateBooleanSense s) True
       \<and> (if 4 \<le> extent s
            then threshold (calibrateBooleanSense s) False < median s
               \<and> median s < threshold (calibrateBooleanSense s) True
            else threshold (calibrateBooleanSense s) False = median s
               \<and> median s = threshold (calibrateBooleanSense s) True)"
proof -
  have le: "unat (threshold s False) \<le> unat (threshold s True)"
    using assms(1) by (simp add: word_less_nat_alt)
  have hi: "unat (threshold s True) \<le> 1023"
    using assms(2) by (simp add: word_le_nat_alt MAX_ADC_def)
  have lo: "unat (threshold s False) \<le> 1023" using le hi by simp
  note m = unat_median [OF lo hi]
  note e = unat_extent [OF le]
  note h = unat_halfBand [of s]
  note l = unat_low_threshold [OF le hi]
  note u = unat_high_threshold [OF le hi]
  note hm = halfBand_le_median [OF le hi]
  have four: "(4 \<le> extent s) = (4 \<le> unat (extent s))"
    by (simp add: word_le_nat_alt)
  have c3: "int (unat (halfBand s)) = \<lfloor>min (real (unat (extent s)) * 0.25) 40\<rfloor>"
    by (simp only: h floor_band)
  have c6: "threshold (calibrateBooleanSense s) False \<le> median s"
    by (simp add: calibrate_threshold word_le_nat_alt l)
  have c7: "median s \<le> threshold (calibrateBooleanSense s) True"
    by (simp add: calibrate_threshold word_le_nat_alt u)
  have c8: "(if 4 \<le> extent s
            then threshold (calibrateBooleanSense s) False < median s
               \<and> median s < threshold (calibrateBooleanSense s) True
            else threshold (calibrateBooleanSense s) False = median s
               \<and> median s = threshold (calibrateBooleanSense s) True)"
  proof (cases "4 \<le> unat (extent s)")
    case True
    then have "0 < unat (halfBand s)" by (simp add: h)
    then show ?thesis using True hm
      by (simp add: four calibrate_threshold word_less_nat_alt l u)
  next
    case False
    then have "unat (halfBand s) = 0" by (simp add: h)
    then have "halfBand s = 0" by (simp add: unat_eq_0)
    then show ?thesis using False
      by (simp add: four calibrate_threshold)
  qed
  show ?thesis
    using m e c3 c6 c7 c8 by (simp only: calibrate_threshold simp_thms)
qed

text \<open>
  The range (low = 100, high = 900): median 500, extent 800, half band 40 and
  thresholds (460, 540).
\<close>

theorem calibrateBooleanSense_thresholds_witness:
  "median (with_range 100 900) = 500 \<and> extent (with_range 100 900) = 800
   \<and> halfBand (with_range 100 900) = 40
   \<and> threshold (calibrateBooleanSense (with_range 100 900)) False = 460
   \<and> threshold (calibrateBooleanSense (with_range 100 900)) True = 540
   \<and> threshold (calibrateBooleanSense (with_range 100 900)) False < median (with_range 100 900)
   \<and> median (with_range 100 900) < threshold (calibrateBooleanSense (with_range 100 900)) True"
proof -
  have a: "threshold (with_range 100 900) False < threshold (with_range 100 900) True"
    by (simp add: with_range_def)
  have b: "threshold (with_range 100 900) True \<le> MAX_ADC"
    by (simp add: with_range_def MAX_ADC_def)
  have v: "median (with_range 100 900) = 500" "extent (with_range 100 900) = 800"
    "halfBand (with_range 100 900) = 40"
    by (simp_all add: calib_eval)
  show ?thesis
    using calibrateBooleanSense_thresholds [OF a b] by (simp add: v)
qed

text \<open>
  Claim C2 as stated fails on the range (low = 0, high = 1): the product 0.25 is stored
  as 0, and both thresholds equal the median 0.
\<close>

theorem calibrateBooleanSense_strict_counterexample:
  "\<not> (threshold (calibrateBooleanSense (with_range 0 1)) False < median (with_range 0 1)
      \<and> median (with_range 0 1) < threshold (calibrateBooleanSense (with_range 0 1)) True)
   \<and> real (unat (halfBand (with_range 0 1))) \<noteq> min (real (unat (extent (with_range 0 1))) * 0.25) 40"
  by (simp add: calibrate_threshold calib_eval)

subsection \<open>The thresholds stay inside the converter's domain\<close>

text \<open>
  Claim C10. For an observed range with 0 <= low <= high <= 1023 the thresholds satisfy
  0 <= lowThreshold <= highThreshold <= 1023: the half band is at most
  min(extent / 4, 40), which is at most the median, so the subtraction does not wrap,
  and median + halfBand is at most the observed high bound.
\<close>

theorem calibrateBooleanSense_in_adc_range:
  assumes "threshold s False \<le> threshold s True" and "threshold s True \<le> MAX_ADC"
  shows "MIN_ADC \<le> threshold (calibrateBooleanSense s) False
       \<and> threshold (calibrateBooleanSense s) False \<le> threshold (calibrateBooleanSense s) True
       \<and> threshold (calibrateBooleanSense s) True \<le> MAX_ADC
       \<and> unat (halfBand s) \<le> min (unat (extent s) div 4) 40
       \<and> min (unat (extent s) div 4) 40 \<le> unat (median s)
       \<and> int (unat (threshold (calibrateBooleanSense s) False))
            = int (unat (median s)) - int (unat (halfBand s))
       \<and> int (unat (threshold (calibrateBooleanSense s) True))
            = int (unat (median s)) + int (unat (halfBand s))
       \<and> threshold (calibrateBooleanSense s) True \<le> threshold s True"
proof -
  have le: "unat (threshold s False) \<le> unat (threshold s True)"
    using assms(1) by (simp add: word_le_nat_alt)
  have hi: "unat (threshold s True) \<le> 1023"
    using assms(2) by (simp add: word_le_nat_alt MAX_ADC_def)
  note h = unat_halfBand [of s]
  note l = unat_low_threshold [OF le hi]
  note u = unat_high_threshold [OF le hi]
  note hm = halfBand_le_median [OF le hi]
  note mh = median_plus_halfBand_le [OF le hi]
  have c1: "MIN_ADC \<le> threshold (calibrateBooleanSense s) False"
    by (simp add: MIN_ADC_def)
  have c2: "threshold (calibrateBooleanSense s) False \<le> threshold (calibrateBooleanSense s) True"
    using hm by (simp add: calibrate_threshold word_le_nat_alt l u)
  have c8: "threshold (calibrateBooleanSense s) True \<le> threshold s True"
    using mh by (simp add: calibrate_threshold word_le_nat_alt u)
  have c3: "threshold (calibrateBooleanSense s) True \<le> MAX_ADC"
    using c8 assms(2) by (rule order_trans)
  have c4: "unat (halfBand s) \<le> min (unat (extent s) div 4) 40"
    by (simp only: h order_refl)
  have c5: "min (unat (extent s) div 4) 40 \<le> unat (median s)"
    using hm by (simp only: h)
  have c6: "int (unat (threshold (calibrateBooleanSense s) False))
            = int (unat (median s)) - int (unat (halfBand s))"
    using hm by (simp add: calibrate_threshold l)
  have c7: "int (unat (threshold (calibrateBooleanSense s) True))
            = int (unat (median s)) + int (unat (halfBand s))"
    by (simp add: calibrate_threshold u)
  show ?thesis
    using c1 c2 c3 c4 c5 c6 c7 c8 by (simp only: simp_thms)
qed

theorem calibrateBooleanSense_in_adc_range_witness:
  "threshold (with_range 100 900) False \<le> threshold (with_range 100 900) True
   \<and> threshold (with_range 100 900) True \<le> MAX_ADC
   \<and> MIN_ADC \<le> threshold (calibrateBooleanSense (with_range 100 900)) False
   \<and> threshold (calibrateBooleanSense (with_range 100 900)) False
        \<le> threshold (calibrateBooleanSense (with_range 100 900)) True
   \<and> threshold (calibrateBooleanSense (with_range 100 900)) True \<le> MAX_ADC"
proof -
  have a: "threshold (with_range 100 900) False \<le> threshold (with_range 100 900) True"
    by (simp add: with_range_def)
  have b: "threshold (with_range 100 900) True \<le> MAX_ADC"
    by (simp add: with_range_def MAX_ADC_def)
  show ?thesis
    using a b calibrateBooleanSense_in_adc_range [OF a b] by (simp only: simp_thms)
qed

subsection \<open>Every step of the computation\<close>

text \<open>
  Claim C9, as the sketch behaves. For an observed range with low <= high <= 1023 every
  step (median, extent, half band, median - halfBand, median + halfBand) stays in
  [0, 1023] and equals the result in unbounded integers. For the range (1023, 0), which
  the sampler leaves when the switch is closed at entry, the extent wraps around to
  64513, the half band is 40, and the thresholds are (471, 551).
\<close>

theorem calibrateBooleanSense_steps:
  "(threshold s False \<le> threshold s True \<and> threshold s True \<le> MAX_ADC
    \<longrightarrow> int (unat (median s)) = (int (unat (threshold s False)) + int (unat (threshold s True))) div 2
       \<and> median s \<le> MAX_ADC
       \<and> int (unat (extent s)) = int (unat (threshold s True)) - int (unat (threshold s False))
       \<and> extent s \<le> MAX_ADC
       \<and> halfBand s \<le> FIXED_DEAD_BAND
       \<and> int (unat (median s - halfBand s)) = int (unat (median s)) - int (unat (halfBand s))
       \<and> median s - halfBand s \<le> MAX_ADC
       \<and> int (unat (median s + halfBand s)) = int (unat (median s)) + int (unat (halfBand s))
       \<and> median s + halfBand s \<le> MAX_ADC)
   \<and> median (with_range MAX_ADC MIN_ADC) = 511
   \<and> extent (with_range MAX_ADC MIN_ADC) = 64513
   \<and> halfBand (with_range MAX_ADC MIN_ADC) = 40
   \<and> threshold (calibrateBooleanSense (with_range MAX_ADC MIN_ADC)) False = 471
   \<and> threshold (calibrateBooleanSense (with_range MAX_ADC MIN_ADC)) True = 551"
proof -
  have general: "int (unat (median s)) = (int (unat (threshold s False)) + int (unat (threshold s True))) div 2
       \<and> median s \<le> MAX_ADC
       \<and> int (unat (extent s)) = int (unat (threshold s True)) - int (unat (threshold s False))
       \<and> extent s \<le> MAX_ADC
       \<and> halfBand s \<le> FIXED_DEAD_BAND
       \<and> int (unat (median s - halfBand s)) = int (unat (median s)) - int (unat (halfBand s))
       \<and> median s - halfBand s \<le> MAX_ADC
       \<and> int (unat (median s + halfBand s)) = int (unat (median s)) + int (unat (halfBand s))
       \<and> median s + halfBand s \<le> MAX_ADC"
    if a: "threshold s False \<le> threshold s True" and b: "threshold s True \<le> MAX_ADC"
  proof -
    have le: "unat (threshold s False) \<le> unat (threshold s True)"
      using a by (simp add: word_le_nat_alt)
    have hi: "unat (threshold s True) \<le> 1023"
      using b by (simp add: word_le_nat_alt MAX_ADC_def)
    have lo: "unat (threshold s False) \<le> 1023" using le hi by simp
    note m = unat_median [OF lo hi]
    note e = unat_extent [OF le]
    note h = unat_halfBand [of s]
    note l = unat_low_threshold [OF le hi]
    note u = unat_high_threshold [OF le hi]
    note hm = halfBand_le_median [OF le hi]
    note mh = median_plus_halfBand_le [OF le hi]
    have d1: "int (unat (median s)) = (int (unat (threshold s False)) + int (unat (threshold s True))) div 2"
      by (simp add: m zdiv_int)
    have d2: "median s \<le> MAX_ADC"
      using lo hi by (simp add: word_le_nat_alt MAX_ADC_def m)
    have d3: "int (unat (extent s)) = int (unat (threshold s True)) - int (unat (threshold s False))"
      using le by (simp add: e)
    have d4: "extent s \<le> MAX_ADC"
      using le hi by (simp add: word_le_nat_alt MAX_ADC_def e)
    have d5: "halfBand s \<le> FIXED_DEAD_BAND"
      by (simp add: word_le_nat_alt FIXED_DEAD_BAND_def h)
    have d6: "int (unat (median s - halfBand s)) = int (unat (median s)) - int (unat (halfBand s))"
      using hm by (simp add: l)
    have d7: "median s - halfBand s \<le> MAX_ADC"
      using d2 by (simp add: word_le_nat_alt l)
    have d8: "int (unat (median s + halfBand s)) = int (unat (median s)) + int (unat (halfBand s))"
      by (simp add: u)
    have d9: "median s + halfBand s \<le> MAX_ADC"
      using mh hi by (simp add: word_le_nat_alt MAX_ADC_def u)
    show ?thesis using d1 d2 d3 d4 d5 d6 d7 d8 d9 by (simp only: simp_thms)
  qed
  have v: "median (with_range MAX_ADC MIN_ADC) = 511"
    "extent (with_range MAX_ADC MIN_ADC) = 64513"
    "halfBand (with_range MAX_ADC MIN_ADC) = 40"
    by (simp_all add: calib_eval)
  have t: "threshold (calibrateBooleanSense (with_range MAX_ADC MIN_ADC)) False = 471"
    "threshold (calibrateBooleanSense (with_range MAX_ADC MIN_ADC)) True = 551"
    by (simp_all add: calibrate_threshold v)
  show ?thesis
    using general v t by blast
qed

theorem calibrateBooleanSense_steps_witness:
  "threshold (with_range 100 900) False \<le> threshold (with_range 100 900) True
   \<and> threshold (with_range 100 900) True \<le> MAX_ADC
   \<and> median (with_range 100 900) \<le> MAX_ADC
   \<and> extent (with_range 100 900) \<le> MAX_ADC
   \<and> median (with_range 100 900) - halfBand (with_range 100 900) \<le> MAX_ADC
   \<and> median (with_range 100 900) + halfBand (with_range 100 900) \<le> MAX_ADC"
proof -
  have a: "threshold (with_range 100 900) False \<le> threshold (with_range 100 900) True"
    by (simp add: with_range_def)
  have b: "threshold (with_range 100 900) True \<le> MAX_ADC"
    by (simp add: with_range_def MAX_ADC_def)
  show ?thesis
    using a b calibrateBooleanSense_steps [of "with_range 100 900"] by (simp only: simp_thms)
qed

text \<open>
  Claim C9 as stated fails on the range the sampler leaves when the switch is closed at
  entry: the extent is outside [0, 1023] and the band is not of width zero.
\<close>

theorem calibrateBooleanSense_steps_counterexample:
  "getActiveSenseRange reset [switch_closed 0] = Some (with_range MAX_ADC MIN_ADC, [], [])
   \<and> unat (extent (with_range MAX_ADC MIN_ADC)) = 64513
   \<and> \<not> extent (with_range MAX_ADC MIN_ADC) \<le> MAX_ADC
   \<and> halfBand (with_range MAX_ADC MIN_ADC) \<noteq> 0"
proof -
  have "getActiveSenseRange reset [switch_closed 0] = Some (with_range MAX_ADC MIN_ADC, [], [])"
    by (simp add: getActiveSenseRange_def switch_closed_def with_range_def reset_def fun_eq_iff)
  moreover have "extent (with_range MAX_ADC MIN_ADC) = 64513"
    "halfBand (with_range MAX_ADC MIN_ADC) = 40"
    by (simp_all add: calib_eval)
  ultimately show ?thesis
    by (simp add: MAX_ADC_def)
qed

subsection \<open>What calibrateBooleanSense reads and writes\<close>

text \<open>
  Claim C7, as the sketch behaves. The thresholds depend on the two cells of the array
  only: two states with the same cells give the same thresholds, whatever the other
  globals hold. The procedure overwrites the two cells and leaves every other global
  unchanged.
\<close>

theorem calibrateBooleanSense_reads_array_only:
  "(threshold s = threshold s'
      \<longrightarrow> threshold (calibrateBooleanSense s) = threshold (calibrateBooleanSense s'))
   \<and> adcState (calibrateBooleanSense s) = adcState s
   \<and> startTime (calibrateBooleanSense s) = startTime s
   \<and> revolutionStart (calibrateBooleanSense s) = revolutionStart s
   \<and> revolutions (calibrateBooleanSense s) = revolutions s"
  by (simp add: calibrate_frame calibrateBooleanSense_def median_def halfBand_def extent_def Let_def)

theorem calibrateBooleanSense_reads_array_only_witness:
  "threshold (with_range 100 900)
     = threshold ((with_range 100 900)\<lparr>adcState := False, revolutions := 7\<rparr>)
   \<and> threshold (calibrateBooleanSense (with_range 100 900))
     = threshold (calibrateBooleanSense ((with_range 100 900)\<lparr>adcState := False, revolutions := 7\<rparr>))"
  using calibrateBooleanSense_reads_array_only
    [of "with_range 100 900" "(with_range 100 900)\<lparr>adcState := False, revolutions := 7\<rparr>"]
  by simp

text \<open>
  Claim C7 as stated fails: the second invocation reads the thresholds (460, 540) of the
  first as a range and narrows them to (480, 520).
\<close>

theorem calibrateBooleanSense_twice_counterexample:
  "threshold (calibrateBooleanSense (with_range 100 900)) False = 460
   \<and> threshold (calibrateBooleanSense (with_range 100 900)) True = 540
   \<and> threshold (calibrateBooleanSense (calibrateBooleanSense (with_range 100 900))) False = 480
   \<and> threshold (calibrateBooleanSense (calibrateBooleanSense (with_range 100 900))) True = 520
   \<and> threshold (calibrateBooleanSense (calibrateBooleanSense (with_range 100 900)))
       \<noteq> threshold (calibrateBooleanSense (with_range 100 900))"

proof -
  have first: "threshold (calibrateBooleanSense (with_range 100 900)) False = 460"
    "threshold (calibrateBooleanSense (with_range 100 900)) True = 540"
    by (simp_all add: calibrate_threshold calib_eval)
  have "median (calibrateBooleanSense (with_range 100 900)) = 500"
    "halfBand (calibrateBooleanSense (with_range 100 900)) = 20"
    by (simp_all add: median_def halfBand_def extent_def first
        DEAD_BAND_FACTOR_def FIXED_DEAD_BAND_def min_macro_def float_to_uint_def)
  then have second:
    "threshold (calibrateBooleanSense (calibrateBooleanSense (with_range 100 900))) False = 480"
    "threshold (calibrateBooleanSense (calibrateBooleanSense (with_range 100 900))) True = 520"
    by (simp_all add: calibrate_threshold [of "calibrateBooleanSense (with_range 100 900)"])
  have "threshold (calibrateBooleanSense (calibrateBooleanSense (with_range 100 900)))
       \<noteq> threshold (calibrateBooleanSense (with_range 100 900))"
  proof
    assume "threshold (calibrateBooleanSense (calibrateBooleanSense (with_range 100 900)))
       = threshold (calibrateBooleanSense (with_range 100 900))"
    then have "threshold (calibrateBooleanSense (calibrateBooleanSense (with_range 100 900))) False
       = threshold (calibrateBooleanSense (with_range 100 900)) False"
      by (rule arg_cong)
    then show False by (simp add: first second)
  qed
  then show ?thesis using first second by simp
qed

section \<open>The hysteresis state detector\<close>

text \<open>
  Claim C1. With lowThreshold <= highThreshold, one call of getAdcBoolean returns false
  when the previous state is HIGH and the sample is at most lowThreshold, true when the
  previous state is LOW and the sample is at least highThreshold, and the previous state
  in every other case; for a sample strictly between the thresholds it returns the
  previous state.
\<close>

theorem getAdcBoolean_hysteresis:
  assumes "threshold s False \<le> threshold s True"
  shows "(adcState s \<and> a \<le> threshold s False \<longrightarrow> fst (getAdcBoolean s a) = False)
       \<and> (\<not> adcState s \<and> a \<ge> threshold s True \<longrightarrow> fst (getAdcBoolean s a) = True)
       \<and> (\<not> (adcState s \<and> a \<le> threshold s False) \<and> \<not> (\<not> adcState s \<and> a \<ge> threshold s True)
            \<longrightarrow> fst (getAdcBoolean s a) = adcState s)
       \<and> (threshold s False < a \<and> a < threshold s True
            \<longrightarrow> fst (getAdcBoolean s a) = adcState s)"
  by (auto simp add: getAdcBoolean_def)

theorem getAdcBoolean_hysteresis_witness:
  "threshold (with_range 460 540) False \<le> threshold (with_range 460 540) True
   \<and> fst (getAdcBoolean (with_range 460 540) 450) = False
   \<and> fst (getAdcBoolean ((with_range 460 540)\<lparr>adcState := False\<rparr>) 540) = True
   \<and> fst (getAdcBoolean (with_range 460 540) 600) = True
   \<and> fst (getAdcBoolean (with_range 460 540) 500) = True
   \<and> fst (getAdcBoolean ((with_range 460 540)\<lparr>adcState := False\<rparr>) 500) = False"
proof -
  have a: "threshold (with_range 460 540) False \<le> threshold (with_range 460 540) True"
    by (simp add: with_range_def)
  have b: "threshold ((with_range 460 540)\<lparr>adcState := False\<rparr>) False
             \<le> threshold ((with_range 460 540)\<lparr>adcState := False\<rparr>) True"
    by (simp add: with_range_def)
  show ?thesis
    using getAdcBoolean_hysteresis [OF a, of 450] getAdcBoolean_hysteresis [OF b, of 540]
      getAdcBoolean_hysteresis [OF a, of 600] getAdcBoolean_hysteresis [OF a, of 500]
      getAdcBoolean_hysteresis [OF b, of 500]
    by (simp add: with_range_def reset_def)
qed

lemma getAdcBoolean_state: "snd (getAdcBoolean s a) = s"
  by (simp add: getAdcBoolean_def)

lemma loop_adcState: "adcState (fst (loop s r)) = fst (getAdcBoolean s (adc r))"
  by (simp add: loop_def Let_def getAdcBoolean_state)

lemma loop_threshold: "threshold (fst (loop s r)) = threshold s"
  by (simp add: loop_def Let_def getAdcBoolean_state)

text \<open>
  Claim C5, as the sketch behaves. getAdcBoolean leaves every global as it found it. In
  the revolution timer, loop stores the value that its call of getAdcBoolean returned
  into adcState, so the call of the next iteration decides as the detector does with
  that value as its previous state.
\<close>

theorem loop_stores_detected_state:
  "snd (getAdcBoolean s a) = s
   \<and> adcState (fst (loop s r)) = fst (getAdcBoolean s (adc r))
   \<and> fst (getAdcBoolean (fst (loop s r)) a)
       = fst (getAdcBoolean (s\<lparr>adcState := fst (getAdcBoolean s (adc r))\<rparr>) a)"
  by (simp add: getAdcBoolean_state loop_adcState loop_threshold getAdcBoolean_def [of "fst (loop s r)"]
        getAdcBoolean_def [of "s\<lparr>adcState := fst (getAdcBoolean s (adc r))\<rparr>"])

text \<open>
  Claim C5 as stated fails: in state HIGH with thresholds (460, 540), the call on the
  sample 450 returns LOW and the stored state is still HIGH after it.
\<close>

theorem getAdcBoolean_not_stored_counterexample:
  "fst (getAdcBoolean (with_range 460 540) 450) = False
   \<and> adcState (snd (getAdcBoolean (with_range 460 540) 450)) = True"
  by (simp add: getAdcBoolean_def with_range_def reset_def)

section \<open>The revolution timer\<close>

lemma loop_edge:
  assumes "adcState s" "\<not> fst (getAdcBoolean s (adc r))"
  shows "loop s r =
     (s\<lparr>revolutions := revolutions s + 1, revolutionStart := now r, adcState := False\<rparr>,
      [RevolutionReport (revolutions s + 1) (now r - revolutionStart s)
         (fdiv 1000 (real (unat (now r - revolutionStart s))))
         (fdiv (real (unat (revolutions s + 1)) * 1000) (real (unat (now r - startTime s))))])"
  using assms by (simp add: loop_def Let_def getAdcBoolean_state)

lemma loop_no_edge:
  assumes "\<not> (adcState s \<and> \<not> fst (getAdcBoolean s (adc r)))"
  shows "loop s r = (s\<lparr>adcState := fst (getAdcBoolean s (adc r))\<rparr>, [])"
  using assms by (simp add: loop_def Let_def getAdcBoolean_state)

lemma loop_reports_iff:
  "(snd (loop s r) \<noteq> []) = (adcState s \<and> \<not> fst (getAdcBoolean s (adc r)))"
  by (cases "adcState s \<and> \<not> fst (getAdcBoolean s (adc r))") (simp_all add: loop_edge loop_no_edge)

lemma fdiv_word:
  assumes "w \<noteq> 0"
  shows "fdiv a (real (unat w)) = Fin (a / real (unat w))"
proof -
  have "unat w \<noteq> 0" using assms by (simp add: unat_eq_0)
  then have "real (unat w) \<noteq> 0" by (simp only: of_nat_eq_0_iff not_False_eq_True)
  then show ?thesis by (simp only: fdiv_def if_False)
qed

lemmas loop_eval = loop_def Let_def getAdcBoolean_def with_range_def reset_def sample_def fdiv_def

lemma timer_example:
  "snd (run_loop ((with_range 460 540)\<lparr>startTime := 1000, revolutionStart := 1000\<rparr>)
          [sample 450 1500, sample 600 2000, sample 450 2700])
     = [RevolutionReport 1 500 (Fin 2) (Fin 2),
        RevolutionReport 2 1200 (Fin (5 / 6)) (Fin (20 / 17))]"
  by (simp add: loop_eval)

lemma count_no_wrap:
  assumes "unat (n :: uint) < 65535"
  shows "unat (n + 1) = unat n + 1"
proof -
  have "unat n + unat (1 :: uint) < 2 ^ LENGTH(16)" using assms by simp
  then have "unat (n + 1) = unat n + unat (1 :: uint)"
    by (simp only: unat_add_lem [THEN iffD1])
  then show ?thesis by simp
qed

text \<open>
  Claim C3, as the sketch behaves. A call of loop counts a revolution exactly when the
  state stored by the previous iteration is HIGH and the state detected now is LOW. On
  such an edge the count is incremented as an unsigned int: it increases by 1 below
  65535 and wraps around to 0 at 65535. The interval is the edge time
  minus the previous edge time, the turn speed is 1000.0 / interval, the average speed
  is count * 1000.0 / total interval, one line with these values is printed and the
  last edge time becomes the edge time. Without an edge nothing is printed and only the
  stored state changes. With start time 1000 and edges at 1500 and 2700 the lines hold
  the intervals 500 and 1200, the turn speeds 2 and 5/6 (0.8333) and the average speeds
  2 and 20/17 (1.1765).
\<close>

theorem loop_counts_falling_edges:
  "(adcState s \<and> \<not> fst (getAdcBoolean s (adc r)) \<longrightarrow>
      loop s r =
        (s\<lparr>revolutions := revolutions s + 1, revolutionStart := now r, adcState := False\<rparr>,
         [RevolutionReport (revolutions s + 1) (now r - revolutionStart s)
            (fdiv 1000 (real (unat (now r - revolutionStart s))))
            (fdiv (real (unat (revolutions s + 1)) * 1000) (real (unat (now r - startTime s))))]))
   \<and> (\<not> (adcState s \<and> \<not> fst (getAdcBoolean s (adc r))) \<longrightarrow>
        loop s r = (s\<lparr>adcState := fst (getAdcBoolean s (adc r))\<rparr>, []))
   \<and> (snd (loop (fst (loop s r)) r') \<noteq> [])
        = (fst (getAdcBoolean s (adc r)) \<and> \<not> fst (getAdcBoolean (fst (loop s r)) (adc r')))
   \<and> (unat (revolutions s) < 65535 \<longrightarrow> unat (revolutions s + 1) = unat (revolutions s) + 1)
   \<and> (revolutions s = 65535 \<longrightarrow> revolutions s + 1 = 0)
   \<and> (now r \<noteq> revolutionStart s \<longrightarrow>
        fdiv 1000 (real (unat (now r - revolutionStart s)))
          = Fin (1000 / real (unat (now r - revolutionStart s))))
   \<and> (now r \<noteq> startTime s \<longrightarrow>
        fdiv (real (unat (revolutions s + 1)) * 1000) (real (unat (now r - startTime s)))
          = Fin (real (unat (revolutions s + 1)) * 1000 / real (unat (now r - startTime s))))
   \<and> snd (run_loop ((with_range 460 540)\<lparr>startTime := 1000, revolutionStart := 1000\<rparr>)
          [sample 450 1500, sample 600 2000, sample 450 2700])
       = [RevolutionReport 1 500 (Fin 2) (Fin 2),
          RevolutionReport 2 1200 (Fin (5 / 6)) (Fin (20 / 17))]
   \<and> \<bar>5 / 6 - 0.8333\<bar> < (0.00005 :: real) \<and> \<bar>20 / 17 - 1.1765\<bar> < (0.00005 :: real)"
proof -
  have d1: "now r \<noteq> revolutionStart s \<longrightarrow>
        fdiv 1000 (real (unat (now r - revolutionStart s)))
          = Fin (1000 / real (unat (now r - revolutionStart s)))"
    by (rule impI, rule fdiv_word) simp
  have d2: "now r \<noteq> startTime s \<longrightarrow>
        fdiv (real (unat (revolutions s + 1)) * 1000) (real (unat (now r - startTime s)))
          = Fin (real (unat (revolutions s + 1)) * 1000 / real (unat (now r - startTime s)))"
    by (rule impI, rule fdiv_word) simp
  have d3: "(snd (loop (fst (loop s r)) r') \<noteq> [])
        = (fst (getAdcBoolean s (adc r)) \<and> \<not> fst (getAdcBoolean (fst (loop s r)) (adc r')))"
    by (simp only: loop_reports_iff loop_adcState)
  have d5: "revolutions s = 65535 \<longrightarrow> revolutions s + 1 = 0"
    by simp
  have d4: "\<bar>5 / 6 - 0.8333\<bar> < (0.00005 :: real)" "\<bar>20 / 17 - 1.1765\<bar> < (0.00005 :: real)"
    by simp_all
  show ?thesis
    using loop_edge [of s r] loop_no_edge [of s r] d1 d2 d3 d4 timer_example
      count_no_wrap [of "revolutions s"] d5
    by (simp only: simp_thms) blast
qed

theorem loop_counts_falling_edges_witness:
  "adcState ((with_range 460 540)\<lparr>startTime := 1000, revolutionStart := 1000\<rparr>)
   \<and> \<not> fst (getAdcBoolean ((with_range 460 540)\<lparr>startTime := 1000, revolutionStart := 1000\<rparr>)
              (adc (sample 450 1500)))
   \<and> snd (loop ((with_range 460 540)\<lparr>startTime := 1000, revolutionStart := 1000\<rparr>)
            (sample 450 1500))
       = [RevolutionReport 1 500 (Fin 2) (Fin 2)]
   \<and> snd (loop ((with_range 460 540)\<lparr>startTime := 1000, revolutionStart := 1000\<rparr>)
            (sample 600 2000)) = []"
  using loop_counts_falling_edges
      [of "(with_range 460 540)\<lparr>startTime := 1000, revolutionStart := 1000\<rparr>" "sample 450 1500"]
    loop_counts_falling_edges
      [of "(with_range 460 540)\<lparr>startTime := 1000, revolutionStart := 1000\<rparr>" "sample 600 2000"]
  by (simp add: getAdcBoolean_def with_range_def reset_def sample_def fdiv_def)

text \<open>
  Claim C3 as stated fails at the largest count: with 65535 revolutions counted, the next
  edge leaves the count at 0, not at 65536, and the line printed holds revolution 0 and
  an average speed of 0.
\<close>

theorem loop_count_wraps_counterexample:
  "revolutions (fst (loop ((with_range 460 540)
        \<lparr>startTime := 1000, revolutionStart := 1000, revolutions := 65535\<rparr>)
        (sample 450 1500))) = 0
   \<and> unat (revolutions (fst (loop ((with_range 460 540)
        \<lparr>startTime := 1000, revolutionStart := 1000, revolutions := 65535\<rparr>)
        (sample 450 1500))))
       \<noteq> unat (revolutions ((with_range 460 540)
        \<lparr>startTime := 1000, revolutionStart := 1000, revolutions := 65535\<rparr>)) + 1
   \<and> snd (loop ((with_range 460 540)
        \<lparr>startTime := 1000, revolutionStart := 1000, revolutions := 65535\<rparr>)
        (sample 450 1500))
       = [RevolutionReport 0 500 (Fin 2) (Fin 0)]"
  by (simp add: loop_eval)

text \<open>
  Claim C8, as the sketch behaves. When an edge is detected at the time of the previous
  edge, the interval is 0 and loop has no guard: it counts the revolution, divides
  1000.0 by zero, which gives infinity, and prints the line with interval 0 and an
  infinite turn speed.
\<close>

theorem loop_zero_interval_reported:
  assumes "adcState s" and "\<not> fst (getAdcBoolean s (adc r))" and "now r = revolutionStart s"
  shows "snd (loop s r) =
           [RevolutionReport (revolutions s + 1) 0 PosInf
              (fdiv (real (unat (revolutions s + 1)) * 1000) (real (unat (now r - startTime s))))]
       \<and> revolutions (fst (loop s r)) = revolutions s + 1
       \<and> revolutionStart (fst (loop s r)) = now r"
  using assms by (simp add: loop_edge fdiv_def)

theorem loop_zero_interval_reported_witness:
  "adcState ((with_range 460 540)\<lparr>startTime := 1000, revolutionStart := 1500, revolutions := 1\<rparr>)
   \<and> \<not> fst (getAdcBoolean
        ((with_range 460 540)\<lparr>startTime := 1000, revolutionStart := 1500, revolutions := 1\<rparr>)
        (adc (sample 450 1500)))
   \<and> now (sample 450 1500)
       = revolutionStart ((with_range 460 540)\<lparr>startTime := 1000, revolutionStart := 1500, revolutions := 1\<rparr>)
   \<and> snd (loop ((with_range 460 540)\<lparr>startTime := 1000, revolutionStart := 1500, revolutions := 1\<rparr>)
            (sample 450 1500))
       = [RevolutionReport 2 0 PosInf (Fin 4)]"
proof -
  let ?s = "(with_range 460 540)\<lparr>startTime := 1000, revolutionStart := 1500, revolutions := 1\<rparr>"
  have a: "adcState ?s" by (simp add: with_range_def reset_def)
  have b: "\<not> fst (getAdcBoolean ?s (adc (sample 450 1500)))"
    by (simp add: getAdcBoolean_def with_range_def reset_def sample_def)
  have c: "now (sample 450 1500) = revolutionStart ?s"
    by (simp add: sample_def)
  show ?thesis
    using a b c loop_zero_interval_reported [OF a b c]
    by (simp add: sample_def fdiv_def)
qed

text \<open>
  Claim C8 as stated fails: two consecutive edges at time 1500 give a second line with
  interval 0 and an infinite turn speed, not a skipped reading.
\<close>

theorem timer_zero_interval_counterexample:
  "snd (run_loop ((with_range 460 540)\<lparr>startTime := 1000, revolutionStart := 1000\<rparr>)
          [sample 450 1500, sample 600 1500, sample 450 1500])
     = [RevolutionReport 1 500 (Fin 2) (Fin 2), RevolutionReport 2 0 PosInf (Fin 4)]"
  by (simp add: loop_eval)

section \<open>Synchronisation\<close>

text \<open>
  Neither polling loop stores what getAdcBoolean returns, so the stored state is HIGH
  during both, as it was at reset: the first loop ends on a sample at or below the low
  threshold, and the second ends on the first sample above the low threshold.
\<close>

lemma waitHigh_in_high_state:
  assumes "adcState s"
  shows "waitHigh s (r # rs) =
           (if adc r \<le> threshold s False then waitHigh s rs else Some (s, r, rs))"
  using assms by (simp add: getAdcBoolean_def)

lemma waitLow_in_high_state:
  assumes "adcState s"
  shows "waitLow s (r # rs) =
           (if adc r \<le> threshold s False then Some (s, r, rs) else waitLow s rs)"
  using assms by (simp add: getAdcBoolean_def)

lemma sampled_100_900:
  "getActiveSenseRange reset [sample 100 1, sample 900 2, switch_closed 3]
     = Some (with_range 100 900, [RangeReport 100 100 1, RangeReport 100 900 2], [])"
  by (simp add: getActiveSenseRange_def senseBody_def Let_def with_range_def reset_def sample_def
        switch_closed_def MAX_ADC_def MIN_ADC_def fun_eq_iff)

lemma startup_example:
  "setup_sketch reset [sample 100 1, sample 900 2, switch_closed 3, sample 450 10, sample 500 20]
     = Some ((with_range 460 540)\<lparr>startTime := 20, revolutionStart := 20\<rparr>,
             [RangeReport 100 100 1, RangeReport 100 900 2], [])"
  by (simp add: setup_sketch_def getActiveSenseRange_def senseBody_def Let_def
        synchronizeToRotation_def getAdcBoolean_def calibrateBooleanSense_def calib_eval sample_def
        switch_closed_def fun_eq_iff)

text \<open>
  Claim C4. The claim says that the second wait ends only on a sample at or above the
  high threshold. With thresholds (460, 540) and the samples 450 and 500,
  synchronizeToRotation returns at the sample 500, inside the dead band; no sample
  reached 540. The state is the one the start-up procedure reaches from reset after
  sampling the range (100, 900).
\<close>

theorem synchronizeToRotation_ends_in_dead_band:
  "synchronizeToRotation (with_range 460 540) [sample 450 10, sample 500 20]
     = Some (20, with_range 460 540, [])
   \<and> threshold (with_range 460 540) True = 540
   \<and> adc (sample 450 10) < 540 \<and> adc (sample 500 20) < 540
   \<and> setup_sketch reset
        [sample 100 1, sample 900 2, switch_closed 3, sample 450 10, sample 500 20]
       = Some ((with_range 460 540)\<lparr>startTime := 20, revolutionStart := 20\<rparr>,
               [RangeReport 100 100 1, RangeReport 100 900 2], [])"
proof -
  have "synchronizeToRotation (with_range 460 540) [sample 450 10, sample 500 20]
     = Some (20, with_range 460 540, [])"
    by (simp add: synchronizeToRotation_def getAdcBoolean_def with_range_def reset_def sample_def)
  moreover have "threshold (with_range 460 540) True = 540"
    by (simp add: with_range_def)
  moreover have "adc (sample 450 10) < 540" "adc (sample 500 20) < 540"
    by (simp_all add: sample_def)
  ultimately show ?thesis
    using startup_example by (simp only: simp_thms)
qed

section \<open>Range sampling\<close>

lemma senseBody_low_decreases:
  "threshold (fst (fst (senseBody st r))) False \<le> threshold (fst st) False"
  by (simp add: senseBody_def Let_def less_imp_le)

lemma senseBody_high_increases:
  "threshold (fst st) True \<le> threshold (fst (fst (senseBody st r))) True"
  by (simp add: senseBody_def Let_def less_imp_le)

lemma senseBody_reports_when_flag_set:
  assumes "snd st"
  shows "snd (senseBody st r) =
           [RangeReport (threshold (fst (fst (senseBody st r))) False)
                        (threshold (fst (fst (senseBody st r))) True) (now r)]"
    and "snd (fst (senseBody st r))"
  using assms by (simp_all add: senseBody_def Let_def)

text \<open>
  Claim C6. The claim says that a range line is printed exactly on the iterations that
  change a bound. With the samples 500 and 500 the second iteration changes no bound
  and prints a line all the same: newLimit is still set from the first iteration.
\<close>

theorem getActiveSenseRange_repeats_report:
  "getActiveSenseRange reset [sample 500 1, sample 500 2, switch_closed 3]
     = Some (with_range 500 500, [RangeReport 500 500 1, RangeReport 500 500 2], [])
   \<and> senseBody (with_range 500 500, True) (sample 500 2)
     = ((with_range 500 500, True), [RangeReport 500 500 2])"
  by (simp add: getActiveSenseRange_def senseBody_def Let_def with_range_def reset_def sample_def
        switch_closed_def MAX_ADC_def MIN_ADC_def fun_eq_iff)

text \<open>
  The ranges that reach calibrateBooleanSense: the inverted extremes when the switch is
  closed at entry, and an ordered range inside the converter's domain after one sample
  or more.
\<close>

lemma senseBody_orders_range:
  assumes "adc r \<le> MAX_ADC"
    and "(threshold (fst st) False \<le> threshold (fst st) True \<and> threshold (fst st) True \<le> MAX_ADC)
         \<or> (threshold (fst st) False = MAX_ADC \<and> threshold (fst st) True = MIN_ADC)"
  shows "threshold (fst (fst (senseBody st r))) False \<le> threshold (fst (fst (senseBody st r))) True
       \<and> threshold (fst (fst (senseBody st r))) True \<le> MAX_ADC"
  using assms by (auto simp add: senseBody_def Let_def MAX_ADC_def MIN_ADC_def word_gt_0)

lemma senseLoop_keeps_order:
  assumes "senseLoop st rs = Some (s', out, rest)"
    and "list_all (\<lambda>r. adc r \<le> MAX_ADC) rs"
    and "threshold (fst st) False \<le> threshold (fst st) True \<and> threshold (fst st) True \<le> MAX_ADC"
  shows "threshold s' False \<le> threshold s' True \<and> threshold s' True \<le> MAX_ADC"
  using assms
proof (induction rs arbitrary: st out)
  case Nil
  then show ?case by simp
next
  case (Cons r rs)
  show ?case
  proof (cases "pin r")
    case True
    with Cons.prems(1) obtain out' where
      rec: "senseLoop (fst (senseBody st r)) rs = Some (s', out', rest)"
      by (auto split: option.splits)
    have "adc r \<le> MAX_ADC" using Cons.prems(2) by simp
    then have "threshold (fst (fst (senseBody st r))) False \<le> threshold (fst (fst (senseBody st r))) True
       \<and> threshold (fst (fst (senseBody st r))) True \<le> MAX_ADC"
      using Cons.prems(3) by (intro senseBody_orders_range) simp_all
    moreover have "list_all (\<lambda>r. adc r \<le> MAX_ADC) rs" using Cons.prems(2) by simp
    ultimately show ?thesis using Cons.IH [OF rec] by simp
  next
    case False
    with Cons.prems show ?thesis by simp
  qed
qed

lemma getActiveSenseRange_orders_range:
  assumes "getActiveSenseRange s (r # rs) = Some (s', out, rest)"
    and "pin r" and "list_all (\<lambda>r. adc r \<le> MAX_ADC) (r # rs)"
  shows "threshold s' False \<le> threshold s' True \<and> threshold s' True \<le> MAX_ADC"
proof -
  let ?st = "(s\<lparr>threshold := (threshold s)(False := MAX_ADC, True := MIN_ADC)\<rparr>, False)"
  from assms(1,2) obtain out' where
    rec: "senseLoop (fst (senseBody ?st r)) rs = Some (s', out', rest)"
    by (auto simp add: getActiveSenseRange_def Let_def split: option.splits)
  have "adc r \<le> MAX_ADC" using assms(3) by simp
  then have "threshold (fst (fst (senseBody ?st r))) False \<le> threshold (fst (fst (senseBody ?st r))) True
       \<and> threshold (fst (fst (senseBody ?st r))) True \<le> MAX_ADC"
    by (intro senseBody_orders_range) simp_all
  moreover have "list_all (\<lambda>r. adc r \<le> MAX_ADC) rs" using assms(3) by simp
  ultimately show ?thesis using senseLoop_keeps_order [OF rec] by simp
qed

lemma getActiveSenseRange_switch_closed_at_entry:
  assumes "\<not> pin r"
  shows "getActiveSenseRange s (r # rs)
           = Some (s\<lparr>threshold := (threshold s)(False := MAX_ADC, True := MIN_ADC)\<rparr>, [], rs)"
  using assms by (simp add: getActiveSenseRange_def Let_def)

end
